theory Spec2Isabelle
  imports Complex_Main
begin

section \<open>Data model\<close>

text \<open>
  The program (\<^verbatim>\<open>Code/main.py\<close>) loads every tab-separated file below a directory
  into one pandas DataFrame and computes, for each distinct \<^verbatim>\<open>miRNA_ID\<close>, the mean,
  the sample variance and the standard deviation of the column
  \<^verbatim>\<open>reads_per_million_miRNA_mapped\<close>.

  A cell of a DataFrame is a number, the missing-value marker (pandas' NaN, which
  \<^verbatim>\<open>read_csv\<close> produces for an empty field) or a string (what \<^verbatim>\<open>read_csv\<close> leaves
  in a column that holds a token it cannot read as a number). Floating-point numbers
  are idealised as real numbers: rounding, overflow and the infinities are outside
  this model.
\<close>

datatype cell = Num real | NaN | is_Str: Str string

text \<open>
  A row of the dataset. Only the two columns the aggregation reads are named; any
  further column lives in the extension part of the record and is never looked at.
  A dataset is a list of such rows, top to bottom: a DataFrame that has the two columns,
  as the docstring of the aggregation requires (the \<^verbatim>\<open>KeyError\<close> of a DataFrame that
  lacks one of them is outside this model).
\<close>

record row =
  miRNA_ID :: cell
  reads_per_million_miRNA_mapped :: cell

text \<open>
  One dictionary appended to \<^verbatim>\<open>mirna_statistics\<close> (lines 98 to 103), which becomes one
  row of the returned DataFrame. The key of the dictionary \<^verbatim>\<open>"miRNA_ID"\<close> is the field
  \<open>stat_miRNA_ID\<close> here, since the dataset's rows already have a field of that name.
\<close>

record statistics =
  stat_miRNA_ID :: cell
  average_expression :: cell
  variance_expression :: cell
  standard_deviation :: cell

text \<open>The exceptions the program can end with.\<close>

datatype error =
    NoDataFound  \<comment> \<open>line 35: \<^verbatim>\<open>ValueError("Could not find any matching files, wrong directory")\<close>\<close>
  | ReadError    \<comment> \<open>the exception of \<^verbatim>\<open>pd.read_csv\<close> on a file it cannot open, decode or
                      tokenise (the specification's \<^verbatim>\<open>ParseError\<close>), passed on by line 32\<close>
  | TypeError    \<comment> \<open>what pandas' reductions raise on a column that holds strings\<close>

text \<open>
  The three readings of \<^verbatim>\<open>psutil\<close> taken together (lines 89 to 91 and 105 to 107),
  and the three differences that are printed (lines 109 to 115).
\<close>

record resource_sample =
  cpu_percent :: real
  ram_percent :: real
  disk_percent :: real

record resource_usage =
  cpu_usage :: real
  ram_usage :: real
  disk_usage :: real

section \<open>The pandas operations the aggregation uses\<close>

text \<open>
  \<^verbatim>\<open>Series.unique()\<close>: the distinct values in order of first appearance. pandas scans
  the column once with a hash table and appends every value it has not seen yet; all
  missing values count as one value.
\<close>

fun unique_scan :: "'a list \<Rightarrow> 'a list \<Rightarrow> 'a list" where
  "unique_scan seen [] = seen"
| "unique_scan seen (x # xs) =
     (if x \<in> set seen then unique_scan seen xs else unique_scan (seen @ [x]) xs)"

definition unique :: "'a list \<Rightarrow> 'a list" where
  "unique xs = unique_scan [] xs"

text \<open>
  The elementwise comparison \<^verbatim>\<open>dataset["miRNA_ID"] == mirna_id\<close>: a missing value is
  equal to nothing, not even to itself; a number and a string are never equal.
\<close>

definition py_eq :: "cell \<Rightarrow> cell \<Rightarrow> bool" where
  "py_eq a b = (a \<noteq> NaN \<and> b \<noteq> NaN \<and> a = b)"

text \<open>The entries of a column that are numbers: the reductions skip missing values.\<close>

fun numbers :: "cell list \<Rightarrow> real list" where
  "numbers [] = []"
| "numbers (Num x # vs) = x # numbers vs"
| "numbers (NaN # vs) = numbers vs"
| "numbers (Str s # vs) = numbers vs"

text \<open>
  \<^verbatim>\<open>Series.mean()\<close> (pandas 2, \<^verbatim>\<open>nanops.nanmean\<close> with \<^verbatim>\<open>skipna=True\<close>): a string
  among the values raises \<^verbatim>\<open>TypeError\<close>; otherwise the sum of the values that are
  present divided by their count, and NaN when none is present.
\<close>

definition mean :: "cell list \<Rightarrow> error + cell" where
  "mean vs =
     (if list_ex is_Str vs then Inl TypeError
      else let count = length (numbers vs); the_sum = sum_list (numbers vs)
           in Inr (if count > 0 then Num (the_sum / real count) else NaN))"

text \<open>
  \<^verbatim>\<open>Series.var()\<close> (\<^verbatim>\<open>nanops.nanvar\<close> with \<^verbatim>\<open>ddof=1\<close>): NaN when at most one value
  is present; otherwise the squared deviations from the average of the values that are
  present, summed and divided by their count minus one. A string among the values
  makes it raise as well; the source calls \<^verbatim>\<open>mean()\<close> on the same values first (line
  95), so the exception that leaves the function is always that of \<^verbatim>\<open>mean()\<close>.
\<close>

definition var :: "cell list \<Rightarrow> error + cell" where
  "var vs =
     (if list_ex is_Str vs then Inl TypeError
      else let count = length (numbers vs) in
        if count \<le> 1 then Inr NaN
        else let avg = sum_list (numbers vs) / real count;
                 sqr = map (\<lambda>x. (avg - x)\<^sup>2) (numbers vs)
             in Inr (Num (sum_list sqr / (real count - 1))))"

text \<open>\<^verbatim>\<open>Series.std()\<close> (\<^verbatim>\<open>nanops.nanstd\<close>): the square root of \<^verbatim>\<open>var()\<close>.\<close>

definition std :: "cell list \<Rightarrow> error + cell" where
  "std vs =
     (case var vs of
        Inl e \<Rightarrow> Inl e
      | Inr (Num v) \<Rightarrow> Inr (Num (sqrt v))
      | Inr other \<Rightarrow> Inr NaN)"

section \<open>The aggregation\<close>

text \<open>
  Lines 94 to 97 read one column of \<^verbatim>\<open>mirna_subset\<close>, the rows whose key equals
  \<^verbatim>\<open>mirna_id\<close>: \<^verbatim>\<open>dataset[dataset["miRNA_ID"] == mirna_id]["reads_per_million_miRNA_mapped"]\<close>.
\<close>

definition mirna_subset :: "'a row_scheme list \<Rightarrow> cell \<Rightarrow> 'a row_scheme list" where
  "mirna_subset dataset mirna_id = filter (\<lambda>r. py_eq (miRNA_ID r) mirna_id) dataset"

definition subset_values :: "'a row_scheme list \<Rightarrow> cell \<Rightarrow> cell list" where
  "subset_values dataset mirna_id =
     map reads_per_million_miRNA_mapped (mirna_subset dataset mirna_id)"

text \<open>
  The body of the loop for one \<^verbatim>\<open>mirna_id\<close> (lines 94 to 103): the three reductions
  of the subset's value column in the order the source calls them, and the dictionary
  built from the results. An exception of a reduction leaves the function.
\<close>

definition mirna_row :: "'a row_scheme list \<Rightarrow> cell \<Rightarrow> error + statistics" where
  "mirna_row dataset mirna_id =
     (case mean (subset_values dataset mirna_id) of
        Inl e \<Rightarrow> Inl e
      | Inr average \<Rightarrow>
     (case var (subset_values dataset mirna_id) of
        Inl e \<Rightarrow> Inl e
      | Inr variance \<Rightarrow>
     (case std (subset_values dataset mirna_id) of
        Inl e \<Rightarrow> Inl e
      | Inr stddev \<Rightarrow>
          Inr \<lparr>stat_miRNA_ID = mirna_id, average_expression = average,
               variance_expression = variance, standard_deviation = stddev\<rparr>)))"

text \<open>
  The loop of lines 93 to 103 over the distinct keys: the first exception ends it,
  otherwise the dictionaries are collected in the order of the keys.
\<close>

fun mirna_statistics :: "'a row_scheme list \<Rightarrow> cell list \<Rightarrow> error + statistics list" where
  "mirna_statistics dataset [] = Inr []"
| "mirna_statistics dataset (mirna_id # ids) =
     (case mirna_row dataset mirna_id of
        Inl e \<Rightarrow> Inl e
      | Inr d \<Rightarrow>
          (case mirna_statistics dataset ids of
             Inl e \<Rightarrow> Inl e
           | Inr ds \<Rightarrow> Inr (d # ds)))"

text \<open>
  \<^verbatim>\<open>calculate_average_and_variance_mirna_expression\<close> (lines 73 to 117). The readings
  of \<^verbatim>\<open>psutil\<close> before and after the loop are inputs of the model; the result is the
  printed usage together with the returned table (the list of dictionaries, one row
  each), or the exception.
\<close>

definition calculate_average_and_variance_mirna_expression ::
  "resource_sample \<Rightarrow> resource_sample \<Rightarrow> 'a row_scheme list
     \<Rightarrow> error + resource_usage \<times> statistics list" where
  "calculate_average_and_variance_mirna_expression before after dataset =
     (case mirna_statistics dataset (unique (map miRNA_ID dataset)) of
        Inl e \<Rightarrow> Inl e
      | Inr table \<Rightarrow>
          Inr (\<lparr>cpu_usage = cpu_percent after - cpu_percent before,
                ram_usage = ram_percent after - ram_percent before,
                disk_usage = disk_percent after - disk_percent before\<rparr>,
               table))"

section \<open>The loader\<close>

text \<open>
  \<^verbatim>\<open>os.path.join(root, file)\<close> on a POSIX system: a second component that starts with
  the separator replaces the first; otherwise the two are joined by one separator,
  which is left out when the first component is empty or already ends with it.
\<close>

definition path_join :: "string \<Rightarrow> string \<Rightarrow> string" where
  "path_join a b =
     (if take 1 b = ''/'' then b
      else if a = [] \<or> last a = CHR ''/'' then a @ b
      else a @ ''/'' @ b)"

text \<open>
  What \<^verbatim>\<open>os.walk(base_path)\<close> yields: for each directory of the tree its path, the
  names of its subdirectories and the names of its files.
\<close>

type_synonym walk_entry = "string \<times> string list \<times> string list"

text \<open>
  The inner loop (lines 26 to 33) over the files of one directory. \<^verbatim>\<open>read_csv\<close> is
  the file system seen through \<^verbatim>\<open>pd.read_csv\<close>: the table of rows parsed from the file
  at a path, or \<open>None\<close> when \<^verbatim>\<open>pd.read_csv\<close> raises there. \<open>dataframes\<close> is the list
  the source appends to.
\<close>

fun read_files ::
  "(string \<Rightarrow> 'r list option) \<Rightarrow> string \<Rightarrow> string list \<Rightarrow> 'r list list
     \<Rightarrow> error + 'r list list" where
  "read_files read_csv root_dir [] dataframes = Inr dataframes"
| "read_files read_csv root_dir (file # files) dataframes =
     (if file = ''annotations.txt'' then read_files read_csv root_dir files dataframes
      else if file = ''MANIFEST.txt'' then read_files read_csv root_dir files dataframes
      else (case read_csv (path_join root_dir file) of
              None \<Rightarrow> Inl ReadError
            | Some data \<Rightarrow> read_files read_csv root_dir files (dataframes @ [data])))"

text \<open>The outer loop (lines 22 to 33) over what \<^verbatim>\<open>walk\<close> yields (\<open>root_dir\<close> is the
  source's \<^verbatim>\<open>root\<close>).\<close>

fun walk_loop ::
  "(string \<Rightarrow> 'r list option) \<Rightarrow> walk_entry list \<Rightarrow> 'r list list
     \<Rightarrow> error + 'r list list" where
  "walk_loop read_csv [] dataframes = Inr dataframes"
| "walk_loop read_csv ((root_dir, dirs, files) # entries) dataframes =
     (if files = [] then walk_loop read_csv entries dataframes
      else (case read_files read_csv root_dir files dataframes of
              Inl e \<Rightarrow> Inl e
            | Inr dataframes' \<Rightarrow> walk_loop read_csv entries dataframes'))"

text \<open>
  \<^verbatim>\<open>load_data\<close> (lines 8 to 37). \<^verbatim>\<open>pd.concat\<close> stacks the rows of the tables in the
  order of the list (where the tables differ in their columns pandas fills the cells a
  row lacks with missing values; the number and the order of the rows are those of the
  concatenation).
\<close>

definition load_data ::
  "(string \<Rightarrow> walk_entry list) \<Rightarrow> (string \<Rightarrow> 'r list option) \<Rightarrow> string
     \<Rightarrow> error + 'r list" where
  "load_data walk read_csv base_path =
     (case walk_loop read_csv (walk base_path) [] of
        Inl e \<Rightarrow> Inl e
      | Inr dataframes \<Rightarrow>
          if dataframes = [] then Inl NoDataFound else Inr (concat dataframes))"

section \<open>Notions of the specification\<close>

text \<open>
  The position at which a key is first seen when the key column is scanned from the
  top (the length of the column for a key that does not occur).
\<close>

definition first_position :: "'a list \<Rightarrow> 'a \<Rightarrow> nat" where
  "first_position xs a = length (takeWhile (\<lambda>x. x \<noteq> a) xs)"

text \<open>
  A dataset the reductions can read: no row that belongs to a group (a row whose key
  is present) holds a string in the value column.
\<close>

definition readable :: "'a row_scheme list \<Rightarrow> bool" where
  "readable dataset =
     list_all (\<lambda>r. miRNA_ID r = NaN \<or> \<not> is_Str (reads_per_million_miRNA_mapped r)) dataset"

text \<open>The two reserved names of sidecar files.\<close>

definition sidecar :: "string \<Rightarrow> bool" where
  "sidecar file = (file = ''annotations.txt'' \<or> file = ''MANIFEST.txt'')"

text \<open>
  The paths of the files of the tree that are not sidecars, in the order in which the
  tree is walked.
\<close>

definition data_paths :: "walk_entry list \<Rightarrow> string list" where
  "data_paths entries =
     concat (map (\<lambda>(root_dir, dirs, files).
                    map (path_join root_dir) (filter (\<lambda>file. \<not> sidecar file) files)) entries)"

text \<open>
  The statistics of section 4.2 for a key and the numbers of its group: the arithmetic
  mean, the sample variance (the squared deviations from the mean, summed and divided
  by \<open>n - 1\<close>) and its square root; NaN where the statistic does not exist.
\<close>

definition summary :: "cell \<Rightarrow> real list \<Rightarrow> statistics" where
  "summary k xs =
     \<lparr>stat_miRNA_ID = k,
      average_expression = (if xs = [] then NaN else Num (sum_list xs / real (length xs))),
      variance_expression =
        (if length xs < 2 then NaN
         else Num ((\<Sum>x\<leftarrow>xs. (x - sum_list xs / real (length xs))\<^sup>2) / (real (length xs) - 1))),
      standard_deviation =
        (if length xs < 2 then NaN
         else Num (sqrt ((\<Sum>x\<leftarrow>xs. (x - sum_list xs / real (length xs))\<^sup>2)
                         / (real (length xs) - 1))))\<rparr>"


section \<open>The end-to-end scenario of the specification\<close>

text \<open>
  Section 8 of the specification: a directory with the data files \<^verbatim>\<open>a.tsv\<close> (rows
  X 10 and Y 20) and \<^verbatim>\<open>b.tsv\<close> (row X 30) and an \<^verbatim>\<open>annotations.txt\<close> of garbage
  text, here inside one sample folder below the base path, next to a manifest. Every
  other path, the sidecars among them, is one \<^verbatim>\<open>pd.read_csv\<close> would fail on.
\<close>

definition scenario_walk :: "string \<Rightarrow> walk_entry list" where
  "scenario_walk base_path =
     [(base_path, [''sample1''], [''MANIFEST.txt'']),
      (path_join base_path ''sample1'', [], [''a.tsv'', ''annotations.txt'', ''b.tsv''])]"

definition scenario_read_csv :: "string \<Rightarrow> row list option" where
  "scenario_read_csv p =
     (if p = ''data/sample1/a.tsv''
      then Some [\<lparr>miRNA_ID = Str ''X'', reads_per_million_miRNA_mapped = Num 10\<rparr>,
                 \<lparr>miRNA_ID = Str ''Y'', reads_per_million_miRNA_mapped = Num 20\<rparr>]
      else if p = ''data/sample1/b.tsv''
      then Some [\<lparr>miRNA_ID = Str ''X'', reads_per_million_miRNA_mapped = Num 30\<rparr>]
      else None)"

section \<open>The single-pass reduction of the design notes\<close>










section \<open>The aggregation on a heap of DataFrames\<close>

text \<open>
  To say what the call does to its argument, the DataFrame objects are put on a heap:
  a list of frames, the address of an object being its position. Constructing a
  DataFrame appends a frame. The function of this section is the aggregation again
  with the dataset passed by reference, reading the dataset through the heap at each
  use and allocating every DataFrame that lines 89 to 117 construct: the subset of
  line 94 (boolean indexing copies the selected rows into a new DataFrame) and the
  result of line 117. No statement of these lines assigns into a DataFrame.
\<close>

datatype 'a frame = Dataset "'a row_scheme list" | Statistics "statistics list"

type_synonym 'a heap = "'a frame list"

text \<open>Constructing a DataFrame: the new object gets the next free address.\<close>

definition new_frame :: "'a frame \<Rightarrow> 'a heap \<Rightarrow> nat \<times> 'a heap" where
  "new_frame f heap = (length heap, heap @ [f])"

text \<open>
  The rows of the dataset at an address (none at an address that holds no dataset; the
  properties below are about addresses that do).
\<close>

definition rows_at :: "'a heap \<Rightarrow> nat \<Rightarrow> 'a row_scheme list" where
  "rows_at heap ref =
     (if ref < length heap
      then (case heap ! ref of Dataset rows \<Rightarrow> rows | Statistics table \<Rightarrow> [])
      else [])"

text \<open>The body of the loop, lines 94 to 103.\<close>

definition mirna_row_heap :: "nat \<Rightarrow> cell \<Rightarrow> 'a heap \<Rightarrow> (error + statistics) \<times> 'a heap" where
  "mirna_row_heap dataset mirna_id heap =
     (let (mirna_subset, heap') =
            new_frame (Dataset (filter (\<lambda>r. py_eq (miRNA_ID r) mirna_id) (rows_at heap dataset))) heap;
          column = map reads_per_million_miRNA_mapped (rows_at heap' mirna_subset)
      in (case mean column of
            Inl e \<Rightarrow> Inl e
          | Inr average \<Rightarrow>
         (case var column of
            Inl e \<Rightarrow> Inl e
          | Inr variance \<Rightarrow>
         (case std column of
            Inl e \<Rightarrow> Inl e
          | Inr stddev \<Rightarrow>
              Inr \<lparr>stat_miRNA_ID = mirna_id, average_expression = average,
                   variance_expression = variance, standard_deviation = stddev\<rparr>)),
          heap'))"

text \<open>The loop of lines 93 to 103; the heap is threaded through the iterations.\<close>

fun mirna_statistics_heap ::
  "nat \<Rightarrow> cell list \<Rightarrow> 'a heap \<Rightarrow> (error + statistics list) \<times> 'a heap" where
  "mirna_statistics_heap dataset [] heap = (Inr [], heap)"
| "mirna_statistics_heap dataset (mirna_id # ids) heap =
     (case mirna_row_heap dataset mirna_id heap of
        (Inl e, heap') \<Rightarrow> (Inl e, heap')
      | (Inr d, heap') \<Rightarrow>
          (case mirna_statistics_heap dataset ids heap' of
             (Inl e, heap'') \<Rightarrow> (Inl e, heap'')
           | (Inr ds, heap'') \<Rightarrow> (Inr (d # ds), heap'')))"

text \<open>
  The function: the outcome is the exception, or the printed usage with the address
  of the returned table; the heap after the call comes with it.
\<close>

definition calculate_average_and_variance_mirna_expression_heap ::
  "resource_sample \<Rightarrow> resource_sample \<Rightarrow> nat \<Rightarrow> 'a heap
     \<Rightarrow> (error + resource_usage \<times> nat) \<times> 'a heap" where
  "calculate_average_and_variance_mirna_expression_heap before after dataset heap =
     (case mirna_statistics_heap dataset (unique (map miRNA_ID (rows_at heap dataset))) heap of
        (Inl e, heap') \<Rightarrow> (Inl e, heap')
      | (Inr table, heap') \<Rightarrow>
          (let (result, heap'') = new_frame (Statistics table) heap'
           in (Inr (\<lparr>cpu_usage = cpu_percent after - cpu_percent before,
                      ram_usage = ram_percent after - ram_percent before,
                      disk_usage = disk_percent after - disk_percent before\<rparr>,
                     result),
               heap'')))"

section \<open>Properties of the pandas operations and of the loop\<close>

lemma remdups_snoc: "remdups (ys @ [x]) = filter (\<lambda>y. y \<noteq> x) (remdups ys) @ [x]"
  by (induction ys) auto

lemma unique_scan_closed:
  "unique_scan seen xs = seen @ rev (remdups (rev (filter (\<lambda>x. x \<notin> set seen) xs)))"
proof (induction xs arbitrary: seen)
  case Nil
  then show ?case by simp
next
  case (Cons x xs)
  show ?case
  proof (cases "x \<in> set seen")
    case True
    then show ?thesis using Cons.IH [of seen] by simp
  next
    case False
    have "filter (\<lambda>y. y \<notin> set (seen @ [x])) xs = filter (\<lambda>y. y \<noteq> x) (filter (\<lambda>y. y \<notin> set seen) xs)"
      by (induction xs) auto
    then show ?thesis using False Cons.IH [of "seen @ [x]"]
      by (simp add: remdups_snoc rev_filter remdups_filter)
  qed
qed

lemma unique_Cons: "unique (x # xs) = x # filter (\<lambda>y. y \<noteq> x) (unique xs)"
  by (simp add: unique_def unique_scan_closed remdups_snoc rev_filter remdups_filter)

lemma unique_Nil: "unique [] = []"
  by (simp add: unique_def)

lemma set_unique: "set (unique xs) = set xs"
  by (induction xs) (auto simp: unique_Cons unique_Nil)

lemma distinct_unique: "distinct (unique xs)"
  by (induction xs) (auto simp: unique_Cons unique_Nil)

lemma first_seen_unique:
  "sorted_wrt (\<lambda>a b. first_position xs a < first_position xs b) (unique xs)"
proof (induction xs)
  case Nil
  then show ?case by (simp add: unique_Nil)
next
  case (Cons x xs)
  have "sorted_wrt (\<lambda>a b. first_position xs a < first_position xs b) (filter (\<lambda>y. y \<noteq> x) (unique xs))"
    using Cons.IH by (rule sorted_wrt_filter)
  then have "sorted_wrt (\<lambda>a b. first_position (x # xs) a < first_position (x # xs) b) (filter (\<lambda>y. y \<noteq> x) (unique xs))"
    by (rule sorted_wrt_mono_rel [rotated]) (auto simp: first_position_def)
  then show ?case
    by (auto simp: unique_Cons first_position_def)
qed

lemma mean_Inl_iff: "mean vs = Inl e \<longleftrightarrow> e = TypeError \<and> list_ex is_Str vs"
  by (auto simp: mean_def Let_def)

lemma var_Inl_iff: "var vs = Inl e \<longleftrightarrow> e = TypeError \<and> list_ex is_Str vs"
  by (auto simp: var_def Let_def)

lemma std_Inl_iff: "std vs = Inl e \<longleftrightarrow> e = TypeError \<and> list_ex is_Str vs"
proof (cases "var vs")
  case (Inl e')
  then show ?thesis using var_Inl_iff [of vs e'] by (auto simp: std_def)
next
  case (Inr c)
  then have "\<not> list_ex is_Str vs" using var_Inl_iff [of vs TypeError] by auto
  then show ?thesis using Inr by (cases c) (auto simp: std_def)
qed

lemma mirna_row_Inl_iff:
  "mirna_row dataset k = Inl e \<longleftrightarrow> e = TypeError \<and> list_ex is_Str (subset_values dataset k)"
proof (cases "list_ex is_Str (subset_values dataset k)")
  case True
  then have "mean (subset_values dataset k) = Inl TypeError"
    by (simp add: mean_Inl_iff)
  then show ?thesis using True
    by (auto simp: mirna_row_def)
next
  case False
  obtain m where m: "mean (subset_values dataset k) = Inr m"
    using False mean_Inl_iff [of "subset_values dataset k"] by (cases "mean (subset_values dataset k)") auto
  obtain v where v: "var (subset_values dataset k) = Inr v"
    using False var_Inl_iff [of "subset_values dataset k"] by (cases "var (subset_values dataset k)") auto
  obtain s where s: "std (subset_values dataset k) = Inr s"
    using False std_Inl_iff [of "subset_values dataset k"] by (cases "std (subset_values dataset k)") auto
  show ?thesis using False m v s
    by (simp add: mirna_row_def)
qed

lemma mirna_row_key: "mirna_row dataset k = Inr d \<Longrightarrow> stat_miRNA_ID d = k"
  by (auto simp: mirna_row_def Let_def split: sum.splits)

lemma mirna_statistics_Inr_iff:
  "mirna_statistics dataset ks = Inr table \<longleftrightarrow> list_all2 (\<lambda>k d. mirna_row dataset k = Inr d) ks table"
proof (induction ks arbitrary: table)
  case Nil
  then show ?case by auto
next
  case (Cons k ks)
  show ?case
  proof (cases "mirna_row dataset k")
    case (Inl e)
    then show ?thesis by (cases table) auto
  next
    case row: (Inr d)
    show ?thesis
    proof (cases "mirna_statistics dataset ks")
      case (Inl e)
      then have "\<not> list_all2 (\<lambda>k d. mirna_row dataset k = Inr d) ks t" for t
        using Cons.IH [of t] by simp
      then show ?thesis using row Inl by (cases table) auto
    next
      case (Inr rest)
      then have "list_all2 (\<lambda>k d. mirna_row dataset k = Inr d) ks t \<longleftrightarrow> t = rest" for t
        using Cons.IH [of t] by auto
      then show ?thesis using row Inr by (cases table) auto
    qed
  qed
qed

lemma mirna_statistics_Inl_iff:
  "mirna_statistics dataset ks = Inl e \<longleftrightarrow> e = TypeError \<and> (\<exists>k\<in>set ks. list_ex is_Str (subset_values dataset k))"
proof (induction ks)
  case Nil
  then show ?case by simp
next
  case (Cons k ks)
  show ?case
  proof (cases "mirna_row dataset k")
    case (Inl e')
    then show ?thesis using mirna_row_Inl_iff [of dataset k e'] by auto
  next
    case (Inr d)
    then have "\<not> list_ex is_Str (subset_values dataset k)"
      using mirna_row_Inl_iff [of dataset k TypeError] by auto
    then show ?thesis using Inr Cons.IH by (auto split: sum.splits)
  qed
qed

lemma readable_iff:
  "readable dataset \<longleftrightarrow> (\<forall>k\<in>set (unique (map miRNA_ID dataset)). \<not> list_ex is_Str (subset_values dataset k))"
  by (auto simp: readable_def set_unique subset_values_def mirna_subset_def list_all_iff list_ex_iff py_eq_def)

lemma aggregation_Inl_iff:
  "calculate_average_and_variance_mirna_expression before after dataset = Inl e
     \<longleftrightarrow> e = TypeError \<and> \<not> readable dataset"
proof (cases "mirna_statistics dataset (unique (map miRNA_ID dataset))")
  case (Inl e')
  then show ?thesis
    using mirna_statistics_Inl_iff [of dataset "unique (map miRNA_ID dataset)" e']
    by (auto simp: calculate_average_and_variance_mirna_expression_def readable_iff)
next
  case (Inr t)
  then have "\<not> (\<exists>k\<in>set (unique (map miRNA_ID dataset)). list_ex is_Str (subset_values dataset k))"
    using mirna_statistics_Inl_iff [of dataset "unique (map miRNA_ID dataset)" TypeError] by auto
  then show ?thesis using Inr
    by (auto simp: calculate_average_and_variance_mirna_expression_def readable_iff)
qed

lemma aggregation_Inr_iff:
  "calculate_average_and_variance_mirna_expression before after dataset = Inr (usage, table)
     \<longleftrightarrow> usage = \<lparr>cpu_usage = cpu_percent after - cpu_percent before,
                ram_usage = ram_percent after - ram_percent before,
                disk_usage = disk_percent after - disk_percent before\<rparr>
        \<and> list_all2 (\<lambda>k d. mirna_row dataset k = Inr d) (unique (map miRNA_ID dataset)) table"
proof (cases "mirna_statistics dataset (unique (map miRNA_ID dataset))")
  case (Inl e)
  then show ?thesis
    using mirna_statistics_Inr_iff [of dataset "unique (map miRNA_ID dataset)" table]
    by (auto simp: calculate_average_and_variance_mirna_expression_def)
next
  case (Inr t)
  then show ?thesis
    using mirna_statistics_Inr_iff [of dataset "unique (map miRNA_ID dataset)" table]
    by (auto simp: calculate_average_and_variance_mirna_expression_def)
qed

lemma table_keys:
  "list_all2 (\<lambda>k d. mirna_row dataset k = Inr d) ks table \<Longrightarrow> map stat_miRNA_ID table = ks"
  by (induction ks table rule: list_all2_induct) (auto dest: mirna_row_key)

text \<open>
  C1, as amended. For every dataset that the reductions can read (no row with a present
  key holds a string in the value column), the aggregation returns a table with exactly
  one row per distinct value of the key column (the keys of the rows are pairwise
  different and are exactly the keys that occur in the dataset), and the rows are in
  first-seen order: the key of a row first occurs in the dataset's key column before
  the key of any later row does. All missing keys count as one key.
\<close>

theorem first_seen_rows:
  assumes "readable dataset"
  shows "\<exists>usage table.
           calculate_average_and_variance_mirna_expression before after dataset = Inr (usage, table)
         \<and> distinct (map stat_miRNA_ID table)
         \<and> set (map stat_miRNA_ID table) = set (map miRNA_ID dataset)
         \<and> sorted_wrt (\<lambda>a b. first_position (map miRNA_ID dataset) a
                              < first_position (map miRNA_ID dataset) b)
             (map stat_miRNA_ID table)"
proof -
  obtain r where r: "calculate_average_and_variance_mirna_expression before after dataset = Inr r"
    using assms aggregation_Inl_iff [of before after dataset]
    by (cases "calculate_average_and_variance_mirna_expression before after dataset") auto
  obtain usage table where ut: "r = (usage, table)"
    by (cases r)
  have keys: "map stat_miRNA_ID table = unique (map miRNA_ID dataset)"
    using r ut aggregation_Inr_iff [of before after dataset usage table] table_keys by blast
  have "distinct (map stat_miRNA_ID table)"
    unfolding keys by (rule distinct_unique)
  moreover have "set (map stat_miRNA_ID table) = set (map miRNA_ID dataset)"
    unfolding keys by (rule set_unique)
  moreover have "sorted_wrt (\<lambda>a b. first_position (map miRNA_ID dataset) a
                              < first_position (map miRNA_ID dataset) b)
             (map stat_miRNA_ID table)"
    unfolding keys by (rule first_seen_unique)
  ultimately show ?thesis using r ut by blast
qed

text \<open>
  The theorem at the dataset X 10, Y 20, X 30: two rows, X before Y.
\<close>

theorem first_seen_rows_witness:
  "\<exists>usage table.
     calculate_average_and_variance_mirna_expression
       \<lparr>cpu_percent = 3, ram_percent = 40, disk_percent = 71\<rparr>
       \<lparr>cpu_percent = 9, ram_percent = 41, disk_percent = 71\<rparr>
       [\<lparr>miRNA_ID = Str ''X'', reads_per_million_miRNA_mapped = Num 10\<rparr>,
        \<lparr>miRNA_ID = Str ''Y'', reads_per_million_miRNA_mapped = Num 20\<rparr>,
        \<lparr>miRNA_ID = Str ''X'', reads_per_million_miRNA_mapped = Num 30\<rparr>] = Inr (usage, table)
     \<and> map stat_miRNA_ID table = [Str ''X'', Str ''Y'']"
proof -
  let ?d = "[\<lparr>miRNA_ID = Str ''X'', reads_per_million_miRNA_mapped = Num 10\<rparr>,
        \<lparr>miRNA_ID = Str ''Y'', reads_per_million_miRNA_mapped = Num 20\<rparr>,
        \<lparr>miRNA_ID = Str ''X'', reads_per_million_miRNA_mapped = Num 30\<rparr>]"
  have h: "readable ?d" by (simp add: readable_def)
  from first_seen_rows [OF h, of "\<lparr>cpu_percent = 3, ram_percent = 40, disk_percent = 71\<rparr>"
       "\<lparr>cpu_percent = 9, ram_percent = 41, disk_percent = 71\<rparr>"]
  show ?thesis
    by (simp add: calculate_average_and_variance_mirna_expression_def unique_def mirna_row_def
        subset_values_def mirna_subset_def py_eq_def mean_def var_def std_def split: sum.splits)
qed

text \<open>
  C1 as stated, for every table with the two columns, fails: on a table whose value
  column holds a string the call of \<^verbatim>\<open>mean()\<close> in line 95 raises, and no row is
  produced at all.
\<close>

theorem string_value_counterexample:
  "calculate_average_and_variance_mirna_expression
     \<lparr>cpu_percent = 3, ram_percent = 40, disk_percent = 71\<rparr>
     \<lparr>cpu_percent = 9, ram_percent = 41, disk_percent = 71\<rparr>
     [\<lparr>miRNA_ID = Str ''X'', reads_per_million_miRNA_mapped = Str ''high''\<rparr>] = Inl TypeError"
  by (simp add: calculate_average_and_variance_mirna_expression_def unique_def mirna_row_def
      subset_values_def mirna_subset_def py_eq_def mean_def)

section \<open>The statistics of a group\<close>



lemma mirna_row_summary:
  assumes "\<not> list_ex is_Str (subset_values dataset k)"
  shows "mirna_row dataset k = Inr (summary k (numbers (subset_values dataset k)))"
proof -
  have sq: "(\<Sum>x\<leftarrow>xs. (c - x)\<^sup>2) = (\<Sum>x\<leftarrow>xs. (x - c)\<^sup>2)" for c :: real and xs
    by (simp add: power2_commute)
  have le: "n \<le> Suc 0 \<longleftrightarrow> n < 2" for n :: nat
    by auto
  show ?thesis
    using assms by (simp add: mirna_row_def mean_def var_def std_def Let_def sq le summary_def)
qed











section \<open>Non-numeric entries and resource sampling\<close>

lemma list_all2_map_same: "list_all2 (\<lambda>k d. f k = Inr d) ks table \<longleftrightarrow> map f ks = map Inr table"
proof (induction ks arbitrary: table)
  case Nil
  then show ?case by auto
next
  case (Cons k ks)
  then show ?case by (cases table) auto
qed

lemma aggregation_summary:
  assumes "readable dataset"
  shows "calculate_average_and_variance_mirna_expression before after dataset
       = Inr (\<lparr>cpu_usage = cpu_percent after - cpu_percent before,
               ram_usage = ram_percent after - ram_percent before,
               disk_usage = disk_percent after - disk_percent before\<rparr>,
              map (\<lambda>k. summary k (numbers (subset_values dataset k)))
                (unique (map miRNA_ID dataset)))"
proof -
  let ?ks = "unique (map miRNA_ID dataset)"
  let ?table = "map (\<lambda>k. summary k (numbers (subset_values dataset k))) ?ks"
  have "\<forall>k\<in>set ?ks. mirna_row dataset k = Inr (summary k (numbers (subset_values dataset k)))"
    using assms readable_iff [of dataset] mirna_row_summary [of dataset] by blast
  then have "map (mirna_row dataset) ?ks = map Inr ?table"
    by simp
  then have "list_all2 (\<lambda>k d. mirna_row dataset k = Inr d) ?ks ?table"
    by (simp only: list_all2_map_same)
  then show ?thesis
    by (simp only: aggregation_Inr_iff)
qed

text \<open>
  C7, as amended. When no row with a present key holds a string, the aggregation does
  not abort: entries that are missing are skipped, and the table holds for each distinct
  key, in first-seen order, the statistics of the numbers of that key's group alone
  (NaN only where the group has no number, or fewer than two for the variance and the
  deviation). When some row with a present key holds a string, the aggregation aborts
  with \<^verbatim>\<open>TypeError\<close> and returns statistics for no group.
\<close>

theorem strings_abort_missing_skipped:
  "(readable dataset \<longrightarrow>
      (\<exists>usage. calculate_average_and_variance_mirna_expression before after dataset
         = Inr (usage, map (\<lambda>k. summary k (numbers (subset_values dataset k)))
                         (unique (map miRNA_ID dataset)))))
   \<and> (\<not> readable dataset \<longrightarrow>
        calculate_average_and_variance_mirna_expression before after dataset = Inl TypeError)"
  by (simp add: aggregation_summary aggregation_Inl_iff)

text \<open>
  A group a with the entries 1, missing, 3 gets the statistics of 1 and 3, and group
  b is untouched; a string in group b aborts the aggregation.
\<close>

theorem strings_abort_missing_skipped_witness:
  "(\<exists>usage. calculate_average_and_variance_mirna_expression
       \<lparr>cpu_percent = 3, ram_percent = 40, disk_percent = 71\<rparr>
       \<lparr>cpu_percent = 9, ram_percent = 41, disk_percent = 71\<rparr>
       [\<lparr>miRNA_ID = Str ''a'', reads_per_million_miRNA_mapped = Num 1\<rparr>,
        \<lparr>miRNA_ID = Str ''a'', reads_per_million_miRNA_mapped = NaN\<rparr>,
        \<lparr>miRNA_ID = Str ''b'', reads_per_million_miRNA_mapped = Num 7\<rparr>,
        \<lparr>miRNA_ID = Str ''a'', reads_per_million_miRNA_mapped = Num 3\<rparr>]
     = Inr (usage,
        [\<lparr>stat_miRNA_ID = Str ''a'', average_expression = Num 2,
          variance_expression = Num 2, standard_deviation = Num (sqrt 2)\<rparr>,
         \<lparr>stat_miRNA_ID = Str ''b'', average_expression = Num 7,
          variance_expression = NaN, standard_deviation = NaN\<rparr>]))
   \<and> calculate_average_and_variance_mirna_expression
       \<lparr>cpu_percent = 3, ram_percent = 40, disk_percent = 71\<rparr>
       \<lparr>cpu_percent = 9, ram_percent = 41, disk_percent = 71\<rparr>
       [\<lparr>miRNA_ID = Str ''a'', reads_per_million_miRNA_mapped = Num 1\<rparr>,
        \<lparr>miRNA_ID = Str ''b'', reads_per_million_miRNA_mapped = Str ''n/a''\<rparr>]
     = Inl TypeError"
proof -
  let ?b = "\<lparr>cpu_percent = 3, ram_percent = 40, disk_percent = 71\<rparr>"
  let ?a = "\<lparr>cpu_percent = 9, ram_percent = 41, disk_percent = 71\<rparr>"
  let ?ds = "[\<lparr>miRNA_ID = Str ''a'', reads_per_million_miRNA_mapped = Num 1\<rparr>,
        \<lparr>miRNA_ID = Str ''a'', reads_per_million_miRNA_mapped = NaN\<rparr>,
        \<lparr>miRNA_ID = Str ''b'', reads_per_million_miRNA_mapped = Num 7\<rparr>,
        \<lparr>miRNA_ID = Str ''a'', reads_per_million_miRNA_mapped = Num 3\<rparr>]"
  let ?bad = "[\<lparr>miRNA_ID = Str ''a'', reads_per_million_miRNA_mapped = Num 1\<rparr>,
        \<lparr>miRNA_ID = Str ''b'', reads_per_million_miRNA_mapped = Str ''n/a''\<rparr>]"
  have 1: "readable ?ds" by (simp add: readable_def)
  have 2: "\<not> readable ?bad" by (simp add: readable_def)
  show ?thesis
    using strings_abort_missing_skipped [of ?ds ?b ?a] strings_abort_missing_skipped [of ?bad ?b ?a] 1 2
    by (simp add: unique_def subset_values_def mirna_subset_def py_eq_def summary_def)
qed

text \<open>
  C7 as stated fails for both kinds of non-numeric entry. A string in group X aborts
  the whole aggregation (line 95 raises), so group Y gets no statistics either; a
  missing entry in a group does not make its statistics NaN.
\<close>

theorem non_numeric_counterexample:
  "calculate_average_and_variance_mirna_expression
       \<lparr>cpu_percent = 3, ram_percent = 40, disk_percent = 71\<rparr>
       \<lparr>cpu_percent = 9, ram_percent = 41, disk_percent = 71\<rparr>
       [\<lparr>miRNA_ID = Str ''X'', reads_per_million_miRNA_mapped = Str ''high''\<rparr>,
        \<lparr>miRNA_ID = Str ''Y'', reads_per_million_miRNA_mapped = Num 5\<rparr>]
     = Inl TypeError
   \<and> calculate_average_and_variance_mirna_expression
       \<lparr>cpu_percent = 3, ram_percent = 40, disk_percent = 71\<rparr>
       \<lparr>cpu_percent = 9, ram_percent = 41, disk_percent = 71\<rparr>
       [\<lparr>miRNA_ID = Str ''X'', reads_per_million_miRNA_mapped = Num 1\<rparr>,
        \<lparr>miRNA_ID = Str ''X'', reads_per_million_miRNA_mapped = NaN\<rparr>,
        \<lparr>miRNA_ID = Str ''X'', reads_per_million_miRNA_mapped = Num 3\<rparr>]
     = Inr (\<lparr>cpu_usage = 6, ram_usage = 1, disk_usage = 0\<rparr>,
        [\<lparr>stat_miRNA_ID = Str ''X'', average_expression = Num 2,
          variance_expression = Num 2, standard_deviation = Num (sqrt 2)\<rparr>])"
  by (simp add: calculate_average_and_variance_mirna_expression_def unique_def mirna_row_def
      subset_values_def mirna_subset_def py_eq_def mean_def var_def std_def)

text \<open>
  C8. Two runs on the same dataset that see different resource samples end alike: with
  the same table, or with the same error. The usage reported with a table is the
  after-sample minus the before-sample, field by field.
\<close>

theorem sampling_has_no_effect:
  "map_sum id snd (calculate_average_and_variance_mirna_expression before after dataset)
     = map_sum id snd (calculate_average_and_variance_mirna_expression before' after' dataset)
   \<and> (\<forall>usage table.
        calculate_average_and_variance_mirna_expression before after dataset = Inr (usage, table)
        \<longrightarrow> cpu_usage usage = cpu_percent after - cpu_percent before
          \<and> ram_usage usage = ram_percent after - ram_percent before
          \<and> disk_usage usage = disk_percent after - disk_percent before)"
  by (auto simp: calculate_average_and_variance_mirna_expression_def split: sum.splits)

text \<open>
  Two runs with different samples on the same two rows: the same table, and the usage
  6, 1, 0 for the samples (3, 40, 71) and (9, 41, 71).
\<close>

theorem sampling_has_no_effect_witness:
  "map_sum id snd (calculate_average_and_variance_mirna_expression
       \<lparr>cpu_percent = 3, ram_percent = 40, disk_percent = 71\<rparr>
       \<lparr>cpu_percent = 9, ram_percent = 41, disk_percent = 71\<rparr>
       [\<lparr>miRNA_ID = Str ''X'', reads_per_million_miRNA_mapped = Num 10\<rparr>,
        \<lparr>miRNA_ID = Str ''Y'', reads_per_million_miRNA_mapped = Num 20\<rparr>])
   = map_sum id snd (calculate_average_and_variance_mirna_expression
       \<lparr>cpu_percent = 50, ram_percent = 12, disk_percent = 80\<rparr>
       \<lparr>cpu_percent = 20, ram_percent = 90, disk_percent = 81\<rparr>
       [\<lparr>miRNA_ID = Str ''X'', reads_per_million_miRNA_mapped = Num 10\<rparr>,
        \<lparr>miRNA_ID = Str ''Y'', reads_per_million_miRNA_mapped = Num 20\<rparr>])
   \<and> (\<exists>table. calculate_average_and_variance_mirna_expression
       \<lparr>cpu_percent = 3, ram_percent = 40, disk_percent = 71\<rparr>
       \<lparr>cpu_percent = 9, ram_percent = 41, disk_percent = 71\<rparr>
       [\<lparr>miRNA_ID = Str ''X'', reads_per_million_miRNA_mapped = Num 10\<rparr>,
        \<lparr>miRNA_ID = Str ''Y'', reads_per_million_miRNA_mapped = Num 20\<rparr>]
      = Inr (\<lparr>cpu_usage = 6, ram_usage = 1, disk_usage = 0\<rparr>, table))"
proof -
  let ?ds = "[\<lparr>miRNA_ID = Str ''X'', reads_per_million_miRNA_mapped = Num 10\<rparr>,
        \<lparr>miRNA_ID = Str ''Y'', reads_per_million_miRNA_mapped = Num 20\<rparr>]"
  have "\<exists>table. calculate_average_and_variance_mirna_expression
       \<lparr>cpu_percent = 3, ram_percent = 40, disk_percent = 71\<rparr>
       \<lparr>cpu_percent = 9, ram_percent = 41, disk_percent = 71\<rparr> ?ds
      = Inr (\<lparr>cpu_usage = 6, ram_usage = 1, disk_usage = 0\<rparr>, table)"
    by (simp add: calculate_average_and_variance_mirna_expression_def unique_def mirna_row_def
      subset_values_def mirna_subset_def py_eq_def mean_def var_def std_def)
  then show ?thesis
    using sampling_has_no_effect [of "\<lparr>cpu_percent = 3, ram_percent = 40, disk_percent = 71\<rparr>"
       "\<lparr>cpu_percent = 9, ram_percent = 41, disk_percent = 71\<rparr>" ?ds
       "\<lparr>cpu_percent = 50, ram_percent = 12, disk_percent = 80\<rparr>"
       "\<lparr>cpu_percent = 20, ram_percent = 90, disk_percent = 81\<rparr>"]
    by blast
qed

section \<open>Properties of the loader\<close>

lemma read_files_eq:
  "read_files read_csv root_dir files dataframes =
     (if list_all (\<lambda>p. read_csv p \<noteq> None)
           (map (path_join root_dir) (filter (\<lambda>file. \<not> sidecar file) files))
      then Inr (dataframes @ map (\<lambda>p. the (read_csv p))
                  (map (path_join root_dir) (filter (\<lambda>file. \<not> sidecar file) files)))
      else Inl ReadError)"
proof (induction files arbitrary: dataframes)
  case Nil
  then show ?case by simp
next
  case (Cons f files)
  show ?case
  proof (cases "sidecar f")
    case True
    then show ?thesis using Cons.IH [of dataframes] by (auto simp: sidecar_def)
  next
    case False
    then have n: "f \<noteq> ''annotations.txt''" "f \<noteq> ''MANIFEST.txt''"
      by (auto simp: sidecar_def)
    show ?thesis
    proof (cases "read_csv (path_join root_dir f)")
      case None
      then show ?thesis using False n by simp
    next
      case (Some data)
      then show ?thesis using False n Cons.IH [of "dataframes @ [data]"] by simp
    qed
  qed
qed

lemma data_paths_Cons:
  "data_paths ((root_dir, dirs, files) # entries)
     = map (path_join root_dir) (filter (\<lambda>file. \<not> sidecar file) files) @ data_paths entries"
  by (simp add: data_paths_def)

lemma walk_loop_eq:
  "walk_loop read_csv entries dataframes =
     (if list_all (\<lambda>p. read_csv p \<noteq> None) (data_paths entries)
      then Inr (dataframes @ map (\<lambda>p. the (read_csv p)) (data_paths entries))
      else Inl ReadError)"
proof (induction entries arbitrary: dataframes)
  case Nil
  then show ?case by (simp add: data_paths_def)
next
  case (Cons entry entries)
  obtain root_dir dirs files where e: "entry = (root_dir, dirs, files)"
    by (cases entry)
  show ?case
  proof (cases "files = []")
    case True
    then have "data_paths (entry # entries) = data_paths entries"
      by (simp add: e data_paths_Cons)
    then show ?thesis using True Cons.IH [of dataframes] by (simp add: e)
  next
    case False
    show ?thesis
      unfolding e data_paths_Cons
      using False Cons.IH read_files_eq [of read_csv root_dir files dataframes]
      by simp
  qed
qed

lemma load_data_eq:
  "load_data walk read_csv base_path =
     (if \<exists>p\<in>set (data_paths (walk base_path)). read_csv p = None then Inl ReadError
      else if data_paths (walk base_path) = [] then Inl NoDataFound
      else Inr (concat (map (\<lambda>p. the (read_csv p)) (data_paths (walk base_path)))))"
  by (auto simp: load_data_def walk_loop_eq list_all_iff)

text \<open>
  C3. When the tree holds at least one file that is not a sidecar and \<^verbatim>\<open>pd.read_csv\<close>
  parses every such file (to the rows \<open>content p\<close>), \<^verbatim>\<open>load_data\<close> returns the
  concatenation of their rows in the order of the walk; its row count is the sum of
  the row counts of these files.
\<close>

theorem load_row_count:
  assumes "data_paths (walk base_path) \<noteq> []"
    and "\<forall>p\<in>set (data_paths (walk base_path)). read_csv p = Some (content p)"
  shows "\<exists>dataset. load_data walk read_csv base_path = Inr dataset
       \<and> dataset = concat (map content (data_paths (walk base_path)))
       \<and> length dataset = (\<Sum>p\<leftarrow>data_paths (walk base_path). length (content p))"
proof -
  have eq: "map (\<lambda>p. the (read_csv p)) (data_paths (walk base_path))
      = map content (data_paths (walk base_path))"
    using assms(2) by (simp cong: map_cong)
  have "\<not> (\<exists>p\<in>set (data_paths (walk base_path)). read_csv p = None)"
    using assms(2) by auto
  then have "load_data walk read_csv base_path
      = Inr (concat (map (\<lambda>p. the (read_csv p)) (data_paths (walk base_path))))"
    using assms(1) by (simp only: load_data_eq if_False)
  then have "load_data walk read_csv base_path
      = Inr (concat (map content (data_paths (walk base_path))))"
    by (simp only: eq)
  then show ?thesis
    by (simp add: length_concat comp_def)
qed

text \<open>
  C4. What \<^verbatim>\<open>load_data\<close> returns does not depend on the files named
  \<^verbatim>\<open>annotations.txt\<close> or \<^verbatim>\<open>MANIFEST.txt\<close>: two file systems that agree on every other
  file of the tree give the same result, whatever the sidecars hold, wherever they are
  and whether or not they can be parsed. A table that is returned consists of the rows
  read from the files that are not sidecars, and of nothing else.
\<close>

theorem sidecars_never_loaded:
  assumes "\<forall>(root_dir, dirs, files)\<in>set (walk base_path). \<forall>file\<in>set files.
             \<not> sidecar file \<longrightarrow>
               read_csv (path_join root_dir file) = read_csv' (path_join root_dir file)"
  shows "load_data walk read_csv base_path = load_data walk read_csv' base_path
       \<and> (\<forall>dataset. load_data walk read_csv base_path = Inr dataset \<longrightarrow>
            dataset = concat (map (\<lambda>p. the (read_csv p)) (data_paths (walk base_path))))"
proof -
  have rows: "dataset = concat (map (\<lambda>p. the (read_csv p)) (data_paths (walk base_path)))"
    if "load_data walk read_csv base_path = Inr dataset" for dataset
    using that by (simp add: load_data_eq split: if_splits)
  have "\<forall>p\<in>set (data_paths (walk base_path)). read_csv p = read_csv' p"
    using assms by (fastforce simp: data_paths_def)
  then have "map (\<lambda>p. the (read_csv p)) (data_paths (walk base_path))
      = map (\<lambda>p. the (read_csv' p)) (data_paths (walk base_path))"
    and "(\<exists>p\<in>set (data_paths (walk base_path)). read_csv p = None)
      \<longleftrightarrow> (\<exists>p\<in>set (data_paths (walk base_path)). read_csv' p = None)"
    by auto
  then have "load_data walk read_csv base_path = load_data walk read_csv' base_path"
    by (simp only: load_data_eq)
  then show ?thesis using rows by blast
qed

text \<open>
  C5, as amended. \<^verbatim>\<open>load_data\<close> raises \<^verbatim>\<open>NoDataFound\<close> exactly when the tree holds no
  file that is not a sidecar. It raises no error when there is at least one such file
  and all of them parse; and as soon as one of them fails to parse it ends with the
  error of \<^verbatim>\<open>pd.read_csv\<close>, not with \<^verbatim>\<open>NoDataFound\<close>.
\<close>

theorem no_data_found:
  "(load_data walk read_csv base_path = Inl NoDataFound \<longleftrightarrow> data_paths (walk base_path) = [])
   \<and> (data_paths (walk base_path) \<noteq> []
        \<and> (\<forall>p\<in>set (data_paths (walk base_path)). read_csv p \<noteq> None)
      \<longrightarrow> (\<exists>dataset. load_data walk read_csv base_path = Inr dataset))
   \<and> ((\<exists>p\<in>set (data_paths (walk base_path)). read_csv p = None)
      \<longrightarrow> load_data walk read_csv base_path = Inl ReadError)"
  by (auto simp: load_data_eq)


lemma scenario_paths:
  "data_paths (scenario_walk ''data'') = [''data/sample1/a.tsv'', ''data/sample1/b.tsv'']"
  by (simp add: data_paths_def scenario_walk_def sidecar_def path_join_def)

text \<open>
  The scenario: the two data files with 2 and 1 rows load into a table of 3 rows.
\<close>

theorem load_row_count_witness:
  "load_data scenario_walk scenario_read_csv ''data''
     = Inr [\<lparr>miRNA_ID = Str ''X'', reads_per_million_miRNA_mapped = Num 10\<rparr>,
            \<lparr>miRNA_ID = Str ''Y'', reads_per_million_miRNA_mapped = Num 20\<rparr>,
            \<lparr>miRNA_ID = Str ''X'', reads_per_million_miRNA_mapped = Num 30\<rparr>]
   \<and> length [\<lparr>miRNA_ID = Str ''X'', reads_per_million_miRNA_mapped = Num 10\<rparr>,
            \<lparr>miRNA_ID = Str ''Y'', reads_per_million_miRNA_mapped = Num 20\<rparr>,
            \<lparr>miRNA_ID = Str ''X'', reads_per_million_miRNA_mapped = Num 30\<rparr>] = 2 + 1"
proof -
  have 1: "data_paths (scenario_walk ''data'') \<noteq> []"
    by (simp add: scenario_paths)
  have 2: "\<forall>p\<in>set (data_paths (scenario_walk ''data'')).
             scenario_read_csv p = Some (the (scenario_read_csv p))"
    by (simp add: scenario_paths scenario_read_csv_def)
  show ?thesis
    using load_row_count [of scenario_walk "''data''" scenario_read_csv
            "\<lambda>p. the (scenario_read_csv p)"] 1 2
    by (simp add: scenario_paths scenario_read_csv_def)
qed

text \<open>
  The scenario with sidecars that would parse into rows: the loaded table is the same
  as with sidecars that cannot be parsed.
\<close>

theorem sidecars_never_loaded_witness:
  "load_data scenario_walk
     (scenario_read_csv
        (''data/sample1/annotations.txt'' :=
           Some [\<lparr>miRNA_ID = Str ''X'', reads_per_million_miRNA_mapped = Num 1000\<rparr>],
         ''data/MANIFEST.txt'' :=
           Some [\<lparr>miRNA_ID = Str ''Z'', reads_per_million_miRNA_mapped = Str ''md5''\<rparr>]))
     ''data''
   = load_data scenario_walk scenario_read_csv ''data''"
proof -
  let ?rc = "scenario_read_csv
        (''data/sample1/annotations.txt'' :=
           Some [\<lparr>miRNA_ID = Str ''X'', reads_per_million_miRNA_mapped = Num 1000\<rparr>],
         ''data/MANIFEST.txt'' :=
           Some [\<lparr>miRNA_ID = Str ''Z'', reads_per_million_miRNA_mapped = Str ''md5''\<rparr>])"
  have "\<forall>(root_dir, dirs, files)\<in>set (scenario_walk ''data''). \<forall>file\<in>set files.
             \<not> sidecar file \<longrightarrow>
               ?rc (path_join root_dir file) = scenario_read_csv (path_join root_dir file)"
    by (simp add: scenario_walk_def sidecar_def path_join_def)
  then show ?thesis
    using sidecars_never_loaded [of scenario_walk "''data''" _ scenario_read_csv] by blast
qed

text \<open>
  A directory with only the two sidecars gives \<^verbatim>\<open>NoDataFound\<close>; the scenario loads;
  the scenario with an unreadable \<^verbatim>\<open>b.tsv\<close> ends with the read error.
\<close>

theorem no_data_found_witness:
  "load_data (\<lambda>base_path. [(base_path, [], [''MANIFEST.txt'', ''annotations.txt''])])
     (\<lambda>p. None :: row list option) ''data'' = Inl NoDataFound
   \<and> (\<exists>dataset. load_data scenario_walk scenario_read_csv ''data'' = Inr dataset)
   \<and> load_data scenario_walk (scenario_read_csv (''data/sample1/b.tsv'' := None)) ''data''
       = Inl ReadError"
proof -
  have 1: "data_paths [(''data'', [], [''MANIFEST.txt'', ''annotations.txt''])] = []"
    by (simp add: data_paths_def sidecar_def)
  have 2: "\<forall>p\<in>set (data_paths (scenario_walk ''data'')). scenario_read_csv p \<noteq> None"
    by (simp add: scenario_paths scenario_read_csv_def)
  have 3: "\<exists>p\<in>set (data_paths (scenario_walk ''data'')).
             (scenario_read_csv (''data/sample1/b.tsv'' := None)) p = None"
    by (simp add: scenario_paths)
  show ?thesis
    using no_data_found [of "\<lambda>base_path. [(base_path, [], [''MANIFEST.txt'', ''annotations.txt''])]"
            "\<lambda>p. None :: row list option" "''data''"]
      no_data_found [of scenario_walk scenario_read_csv "''data''"]
      no_data_found [of scenario_walk "scenario_read_csv (''data/sample1/b.tsv'' := None)" "''data''"]
      1 2 3
    by (simp add: scenario_paths)
qed

text \<open>
  C5 as stated fails. A directory whose only file cannot be parsed has no eligible
  file, and the error is the read error, not \<^verbatim>\<open>NoDataFound\<close>; and the scenario has
  the eligible file \<^verbatim>\<open>a.tsv\<close>, yet with an unreadable \<^verbatim>\<open>b.tsv\<close> next to it an error
  is raised.
\<close>

theorem unparseable_file_counterexample:
  "load_data (\<lambda>base_path. [(base_path, [], [''broken.tsv''])])
     (\<lambda>p. None :: row list option) ''data'' = Inl ReadError
   \<and> load_data scenario_walk (scenario_read_csv (''data/sample1/b.tsv'' := None)) ''data''
       = Inl ReadError"
  by (simp add: load_data_def scenario_walk_def scenario_read_csv_def path_join_def)

section \<open>The single pass against the loop\<close>




















section \<open>The input of the aggregation is left as it was\<close>

lemma rows_at_append: "ref < length heap \<Longrightarrow> rows_at (heap @ ext) ref = rows_at heap ref"
  by (simp add: rows_at_def nth_append)

lemma rows_at_new: "rows_at (heap @ [Dataset rows]) (length heap) = rows"
  by (simp add: rows_at_def)

lemma mirna_row_heap_eq:
  "mirna_row_heap dataset mirna_id heap =
     (mirna_row (rows_at heap dataset) mirna_id,
      heap @ [Dataset (mirna_subset (rows_at heap dataset) mirna_id)])"
  unfolding mirna_row_heap_def new_frame_def mirna_row_def subset_values_def mirna_subset_def
    Let_def prod.case rows_at_new
  by (rule refl)

lemma mirna_statistics_heap_eq:
  "dataset < length heap \<Longrightarrow>
     \<exists>ext. mirna_statistics_heap dataset ks heap
       = (mirna_statistics (rows_at heap dataset) ks, heap @ ext)"
proof (induction ks arbitrary: heap)
  case Nil
  then show ?case by simp
next
  case (Cons k ks)
  let ?heap' = "heap @ [Dataset (mirna_subset (rows_at heap dataset) k)]"
  have "dataset < length ?heap'" using Cons.prems by simp
  then obtain ext where ext: "mirna_statistics_heap dataset ks ?heap'
       = (mirna_statistics (rows_at ?heap' dataset) ks, ?heap' @ ext)"
    using Cons.IH [of ?heap'] by blast
  have same: "rows_at ?heap' dataset = rows_at heap dataset"
    using Cons.prems by (rule rows_at_append)
  show ?case
  proof (cases "mirna_row (rows_at heap dataset) k")
    case (Inl e)
    then show ?thesis by (simp add: mirna_row_heap_eq)
  next
    case (Inr d)
    then show ?thesis using ext same
      by (cases "mirna_statistics (rows_at heap dataset) ks") (simp_all add: mirna_row_heap_eq)
  qed
qed

text \<open>
  C10. A call on a dataset that lives at an address of the heap changes no object that
  existed before the call: the heap after the call begins with the heap before it, so
  the dataset holds the same rows, columns and values. The table that is returned is
  at a new address; it is the table of the aggregation of these rows (and an error is
  the error of that aggregation).
\<close>

theorem input_unchanged:
  assumes "dataset < length heap"
    and "heap ! dataset = Dataset rows"
    and "calculate_average_and_variance_mirna_expression_heap before after dataset heap
           = (outcome, heap')"
  shows "take (length heap) heap' = heap
       \<and> heap' ! dataset = Dataset rows
       \<and> (\<forall>usage result. outcome = Inr (usage, result) \<longrightarrow>
            length heap \<le> result \<and> result < length heap'
          \<and> (\<exists>table. heap' ! result = Statistics table
                \<and> calculate_average_and_variance_mirna_expression before after rows
                    = Inr (usage, table)))
       \<and> (\<forall>e. outcome = Inl e \<longrightarrow>
            calculate_average_and_variance_mirna_expression before after rows = Inl e)"
proof -
  have rows: "rows_at heap dataset = rows"
    using assms(1,2) by (simp add: rows_at_def)
  obtain ext where ext: "mirna_statistics_heap dataset (unique (map miRNA_ID rows)) heap
      = (mirna_statistics rows (unique (map miRNA_ID rows)), heap @ ext)"
    using mirna_statistics_heap_eq [OF assms(1), of "unique (map miRNA_ID rows)"] rows by auto
  show ?thesis
  proof (cases "mirna_statistics rows (unique (map miRNA_ID rows))")
    case (Inl e)
    then have "outcome = Inl e" and "heap' = heap @ ext"
      using assms(3) ext rows
      by (simp_all add: calculate_average_and_variance_mirna_expression_heap_def)
    then show ?thesis using Inl assms(1,2)
      by (simp add: calculate_average_and_variance_mirna_expression_def nth_append)
  next
    case (Inr table)
    then have "outcome = Inr (\<lparr>cpu_usage = cpu_percent after - cpu_percent before,
                      ram_usage = ram_percent after - ram_percent before,
                      disk_usage = disk_percent after - disk_percent before\<rparr>,
                     length (heap @ ext))"
      and "heap' = (heap @ ext) @ [Statistics table]"
      using assms(3) ext rows
      by (simp_all add: calculate_average_and_variance_mirna_expression_heap_def new_frame_def)
    then show ?thesis using Inr assms(1,2)
      by (simp add: calculate_average_and_variance_mirna_expression_def nth_append)
  qed
qed

lemma rows_at_first: "rows_at (Dataset rows # heap) 0 = rows"
  by (simp add: rows_at_def)

text \<open>
  The scenario on a heap that holds only the dataset: after the call the dataset is
  at address 0 as before, the two subsets and the result are new frames, and the
  result at address 3 is the table of the aggregation.
\<close>

theorem input_unchanged_witness:
  "calculate_average_and_variance_mirna_expression_heap
     \<lparr>cpu_percent = 3, ram_percent = 40, disk_percent = 71\<rparr>
     \<lparr>cpu_percent = 9, ram_percent = 41, disk_percent = 71\<rparr>
     0
     [Dataset [\<lparr>miRNA_ID = Str ''X'', reads_per_million_miRNA_mapped = Num 10\<rparr>,
               \<lparr>miRNA_ID = Str ''Y'', reads_per_million_miRNA_mapped = Num 20\<rparr>,
               \<lparr>miRNA_ID = Str ''X'', reads_per_million_miRNA_mapped = Num 30\<rparr>]]
   = (Inr (\<lparr>cpu_usage = 6, ram_usage = 1, disk_usage = 0\<rparr>, 3),
      [Dataset [\<lparr>miRNA_ID = Str ''X'', reads_per_million_miRNA_mapped = Num 10\<rparr>,
                \<lparr>miRNA_ID = Str ''Y'', reads_per_million_miRNA_mapped = Num 20\<rparr>,
                \<lparr>miRNA_ID = Str ''X'', reads_per_million_miRNA_mapped = Num 30\<rparr>],
       Dataset [\<lparr>miRNA_ID = Str ''X'', reads_per_million_miRNA_mapped = Num 10\<rparr>,
                \<lparr>miRNA_ID = Str ''X'', reads_per_million_miRNA_mapped = Num 30\<rparr>],
       Dataset [\<lparr>miRNA_ID = Str ''Y'', reads_per_million_miRNA_mapped = Num 20\<rparr>],
       Statistics
         [\<lparr>stat_miRNA_ID = Str ''X'', average_expression = Num 20,
           variance_expression = Num 200, standard_deviation = Num (sqrt 200)\<rparr>,
          \<lparr>stat_miRNA_ID = Str ''Y'', average_expression = Num 20,
           variance_expression = NaN, standard_deviation = NaN\<rparr>]])
   \<and> calculate_average_and_variance_mirna_expression
       \<lparr>cpu_percent = 3, ram_percent = 40, disk_percent = 71\<rparr>
       \<lparr>cpu_percent = 9, ram_percent = 41, disk_percent = 71\<rparr>
       [\<lparr>miRNA_ID = Str ''X'', reads_per_million_miRNA_mapped = Num 10\<rparr>,
        \<lparr>miRNA_ID = Str ''Y'', reads_per_million_miRNA_mapped = Num 20\<rparr>,
        \<lparr>miRNA_ID = Str ''X'', reads_per_million_miRNA_mapped = Num 30\<rparr>]
     = Inr (\<lparr>cpu_usage = 6, ram_usage = 1, disk_usage = 0\<rparr>,
         [\<lparr>stat_miRNA_ID = Str ''X'', average_expression = Num 20,
           variance_expression = Num 200, standard_deviation = Num (sqrt 200)\<rparr>,
          \<lparr>stat_miRNA_ID = Str ''Y'', average_expression = Num 20,
           variance_expression = NaN, standard_deviation = NaN\<rparr>])"
proof -
  let ?ds = "[\<lparr>miRNA_ID = Str ''X'', reads_per_million_miRNA_mapped = Num 10\<rparr>,
               \<lparr>miRNA_ID = Str ''Y'', reads_per_million_miRNA_mapped = Num 20\<rparr>,
               \<lparr>miRNA_ID = Str ''X'', reads_per_million_miRNA_mapped = Num 30\<rparr>]"
  let ?b = "\<lparr>cpu_percent = 3, ram_percent = 40, disk_percent = 71\<rparr>"
  let ?a = "\<lparr>cpu_percent = 9, ram_percent = 41, disk_percent = 71\<rparr>"
  let ?heap = "[Dataset ?ds]"
  let ?table = "[\<lparr>stat_miRNA_ID = Str ''X'', average_expression = Num 20,
           variance_expression = Num 200, standard_deviation = Num (sqrt 200)\<rparr>,
          \<lparr>stat_miRNA_ID = Str ''Y'', average_expression = Num 20,
           variance_expression = NaN, standard_deviation = NaN\<rparr>]"
  let ?heap' = "[Dataset ?ds,
       Dataset [\<lparr>miRNA_ID = Str ''X'', reads_per_million_miRNA_mapped = Num 10\<rparr>,
                \<lparr>miRNA_ID = Str ''X'', reads_per_million_miRNA_mapped = Num 30\<rparr>],
       Dataset [\<lparr>miRNA_ID = Str ''Y'', reads_per_million_miRNA_mapped = Num 20\<rparr>],
       Statistics ?table]"
  have 1: "0 < length ?heap" by simp
  have 2: "?heap ! 0 = Dataset ?ds" by simp
  have 3: "calculate_average_and_variance_mirna_expression_heap ?b ?a 0 ?heap
      = (Inr (\<lparr>cpu_usage = 6, ram_usage = 1, disk_usage = 0\<rparr>, 3), ?heap')"
    by (simp add: calculate_average_and_variance_mirna_expression_heap_def rows_at_first unique_def
        mirna_row_heap_eq new_frame_def mirna_row_def subset_values_def mirna_subset_def
        py_eq_def mean_def var_def std_def)
  show ?thesis
    using input_unchanged [OF 1 2 3] 3 by simp
qed

end
